theory Spec2Isabelle
  imports
    Complex_Main
    "HOL-Library.Char_ord"
    "HOL-Library.List_Lexorder"
    "HOL-Library.Sublist"
    "HOL-Library.Multiset"
begin

section \<open>JavaScript strings, comparison and sorting\<close>


definition toLowerChar :: "char \<Rightarrow> char" where
  "toLowerChar c =
     (let n = (of_char c :: nat) in if 65 \<le> n \<and> n \<le> 90 then char_of (n + 32) else c)"

definition toLowerCase :: "string \<Rightarrow> string" where
  "toLowerCase s = map toLowerChar s"

text \<open>\<open>s.includes(t)\<close>: \<open>t\<close> occurs in \<open>s\<close> as a contiguous run of characters.\<close>

fun startsWith :: "'a list \<Rightarrow> 'a list \<Rightarrow> bool" where
  "startsWith s [] = True"
| "startsWith [] (c # t) = False"
| "startsWith (d # s) (c # t) = (d = c \<and> startsWith s t)"

fun str_includes :: "'a list \<Rightarrow> 'a list \<Rightarrow> bool" where
  "str_includes [] t = (t = [])"
| "str_includes (d # s) t = (startsWith (d # s) t \<or> str_includes s t)"










text \<open>
  \<open>Array.prototype.sort(compareFn)\<close> is a stable sort: with a consistent comparator the
  result is the one permutation that is ordered by the comparator and keeps equal elements
  in their input order. That permutation is computed here by stable insertion: an element
  is placed before the first element of the sorted tail that it does not come after.
\<close>

fun js_sort_insert :: "('a \<Rightarrow> 'a \<Rightarrow> int) \<Rightarrow> 'a \<Rightarrow> 'a list \<Rightarrow> 'a list" where
  "js_sort_insert cmp x [] = [x]"
| "js_sort_insert cmp x (y # ys) = (if cmp x y \<le> 0 then x # y # ys else y # js_sort_insert cmp x ys)"

definition js_sort :: "('a \<Rightarrow> 'a \<Rightarrow> int) \<Rightarrow> 'a list \<Rightarrow> 'a list" where
  "js_sort cmp xs = foldr (js_sort_insert cmp) xs []"

datatype sort_order = Asc | Desc

text \<open>
  The comparator shared by the list components:
  \<^verbatim>\<open>
  if (aValue < bValue) return sortOrder === 'asc' ? -1 : 1;
  if (aValue > bValue) return sortOrder === 'asc' ? 1 : -1;
  return 0;
  \<close>
\<close>

definition compareValues :: "sort_order \<Rightarrow> ('a::linorder) \<Rightarrow> 'a \<Rightarrow> int" where
  "compareValues ord aValue bValue =
     (if aValue < bValue then (if ord = Asc then - 1 else 1)
      else if aValue > bValue then (if ord = Asc then 1 else - 1)
      else 0)"


text \<open>\<open>Array.prototype.slice(start, end)\<close>, with its clamping of both indices.\<close>

definition js_slice :: "'a list \<Rightarrow> int \<Rightarrow> int \<Rightarrow> 'a list" where
  "js_slice xs start fin =
     (let len = int (length xs);
          k = (if start < 0 then max (len + start) 0 else min start len);
          final = (if fin < 0 then max (len + fin) 0 else min fin len)
      in take (nat (final - k)) (drop (nat k) xs))"

section \<open>FacultyList: filtering, sorting and pagination\<close>

text \<open>
  A qualification is either a plain string or an object with a \<open>name\<close>; the phone
  number and the qualification array may be missing.
\<close>

datatype qualification = QualString string | QualObject string

record faculty_rec =
  f_id :: string
  f_name :: string
  f_email :: string
  f_phone :: "string option"
  f_department :: string
  f_maxHoursPerWeek :: nat
  f_qualifications :: "qualification list option"

datatype faculty_sort_key = ByName | ByDepartment | ByEmail | ByMaxHoursPerWeek

record faculty_list_state =
  fl_searchTerm :: string
  fl_filterDepartment :: string
  fl_sortBy :: faculty_sort_key
  fl_sortOrder :: sort_order
  fl_currentPage :: int
  fl_itemsPerPage :: int

fun qualName :: "qualification \<Rightarrow> string" where
  "qualName (QualString s) = s"
| "qualName (QualObject n) = n"

definition facultyMatchesSearch :: "string \<Rightarrow> faculty_rec \<Rightarrow> bool" where
  "facultyMatchesSearch term f =
     (str_includes (toLowerCase (f_name f)) (toLowerCase term) \<or>
      str_includes (toLowerCase (f_email f)) (toLowerCase term) \<or>
      (case f_phone f of None \<Rightarrow> False | Some p \<Rightarrow> p \<noteq> [] \<and> str_includes p term) \<or>
      (case f_qualifications f of None \<Rightarrow> False
       | Some qs \<Rightarrow> list_ex (\<lambda>q. str_includes (toLowerCase (qualName q)) (toLowerCase term)) qs))"

definition facultyMatches :: "faculty_list_state \<Rightarrow> faculty_rec \<Rightarrow> bool" where
  "facultyMatches st f =
     (facultyMatchesSearch (fl_searchTerm st) f \<and>
      (fl_filterDepartment st = [] \<or> f_department f = fl_filterDepartment st))"

fun facultyCompare :: "faculty_sort_key \<Rightarrow> sort_order \<Rightarrow> faculty_rec \<Rightarrow> faculty_rec \<Rightarrow> int" where
  "facultyCompare ByName ord a b =
     compareValues ord (toLowerCase (f_name a)) (toLowerCase (f_name b))"
| "facultyCompare ByDepartment ord a b =
     compareValues ord (toLowerCase (f_department a)) (toLowerCase (f_department b))"
| "facultyCompare ByEmail ord a b =
     compareValues ord (toLowerCase (f_email a)) (toLowerCase (f_email b))"
| "facultyCompare ByMaxHoursPerWeek ord a b =
     compareValues ord (f_maxHoursPerWeek a) (f_maxHoursPerWeek b)"

definition filteredAndSortedFaculties :: "faculty_rec list \<Rightarrow> faculty_list_state \<Rightarrow> faculty_rec list" where
  "filteredAndSortedFaculties faculties st =
     js_sort (facultyCompare (fl_sortBy st) (fl_sortOrder st)) (filter (facultyMatches st) faculties)"

text \<open>
  \<^verbatim>\<open>
  const totalPages = Math.ceil(filteredAndSortedFaculties.length / itemsPerPage);
  const startIndex = (currentPage - 1) * itemsPerPage;
  const paginatedFaculties = filteredAndSortedFaculties.slice(startIndex, startIndex + itemsPerPage);
  \<close>
  Dividing by zero gives \<open>Infinity\<close> or \<open>NaN\<close> in JavaScript, no integer: \<open>None\<close> here.
\<close>

definition totalPages :: "faculty_rec list \<Rightarrow> faculty_list_state \<Rightarrow> int option" where
  "totalPages faculties st =
     (if fl_itemsPerPage st = 0 then None
      else Some \<lceil>real (length (filteredAndSortedFaculties faculties st)) / real_of_int (fl_itemsPerPage st)\<rceil>)"

definition startIndex :: "faculty_list_state \<Rightarrow> int" where
  "startIndex st = (fl_currentPage st - 1) * fl_itemsPerPage st"

definition paginatedFaculties :: "faculty_rec list \<Rightarrow> faculty_list_state \<Rightarrow> faculty_rec list" where
  "paginatedFaculties faculties st =
     js_slice (filteredAndSortedFaculties faculties st) (startIndex st) (startIndex st + fl_itemsPerPage st)"

text \<open>The page that is shown when \<open>currentPage\<close> is \<open>q\<close>, all else unchanged.\<close>

definition pageOf :: "faculty_rec list \<Rightarrow> faculty_list_state \<Rightarrow> int \<Rightarrow> faculty_rec list" where
  "pageOf faculties st q = paginatedFaculties faculties (st\<lparr>fl_currentPage := q\<rparr>)"

text \<open>Sample data: three faculty members, two per page, sorted by weekly hours.\<close>

definition sample_faculty :: "string \<Rightarrow> nat \<Rightarrow> faculty_rec" where
  "sample_faculty nm h =
     \<lparr>f_id = nm, f_name = nm, f_email = nm @ ''@x.edu'', f_phone = None,
      f_department = ''CS'', f_maxHoursPerWeek = h, f_qualifications = Some [QualString ''Maths'']\<rparr>"

definition sample_faculties :: "faculty_rec list" where
  "sample_faculties = [sample_faculty ''Rao'' 12, sample_faculty ''Iyer'' 8, sample_faculty ''Das'' 10]"

definition sample_faculty_state :: faculty_list_state where
  "sample_faculty_state =
     \<lparr>fl_searchTerm = [], fl_filterDepartment = [], fl_sortBy = ByMaxHoursPerWeek,
      fl_sortOrder = Asc, fl_currentPage = 2, fl_itemsPerPage = 2\<rparr>"

section \<open>RoomList: filtering and sorting\<close>








subsection \<open>What the room list is meant to show\<close>
















section \<open>GeneratorPage: the generate request and its outcome\<close>

text \<open>
  The values that travel through \<open>handleGenerate\<close> are parsed JSON and JavaScript
  objects. Numbers are the integers of the statistics payload; an array is the list of
  its elements, an object the list of its properties, each name occurring once.
\<close>

datatype jsval =
    JUndefined
  | JNull
  | JBool bool
  | JNum int
  | JStr string
  | JArr "jsval list"
  | JObj "(string \<times> jsval) list"

datatype js_error = TypeError

text \<open>Truthiness, and \<open>a || b\<close>: the left operand when it is truthy, else the right one.\<close>

fun truthy :: "jsval \<Rightarrow> bool" where
  "truthy JUndefined = False"
| "truthy JNull = False"
| "truthy (JBool b) = b"
| "truthy (JNum n) = (n \<noteq> 0)"
| "truthy (JStr s) = (s \<noteq> [])"
| "truthy (JArr vs) = True"
| "truthy (JObj ps) = True"

definition js_or :: "jsval \<Rightarrow> jsval \<Rightarrow> jsval" where
  "js_or a b = (if truthy a then a else b)"

text \<open>
  \<open>v.p\<close> throws a \<open>TypeError\<close> on \<open>undefined\<close> and \<open>null\<close>, reads the property of an
  object, and is \<open>undefined\<close> where the property is missing (as are the properties read
  here on a number, a string, a boolean or an array). \<open>v?.p\<close> is \<open>undefined\<close> instead of
  throwing.
\<close>

fun getProp :: "jsval \<Rightarrow> string \<Rightarrow> js_error + jsval" where
  "getProp JUndefined p = Inl TypeError"
| "getProp JNull p = Inl TypeError"
| "getProp (JObj ps) p = Inr (case map_of ps p of None \<Rightarrow> JUndefined | Some v \<Rightarrow> v)"
| "getProp v p = Inr JUndefined"

definition optChain :: "jsval \<Rightarrow> string \<Rightarrow> jsval" where
  "optChain v p = (case getProp v p of Inl e \<Rightarrow> JUndefined | Inr w \<Rightarrow> w)"

text \<open>
  \<open>axios.post\<close> either resolves with a response, of which only \<open>data\<close> (the parsed body)
  is read, or rejects with an error object, which carries a \<open>response\<close> when the server
  answered with a failure status and none when the request never got an answer.
\<close>

datatype axios_outcome = Resolved jsval | Rejected jsval

record generation_stats =
  generationTime :: int
  totalSlots :: jsval
  assignedSlots :: jsval
  conflicts :: jsval

record generator_state =
  timetable :: jsval
  isLoading :: bool
  error :: jsval
  generationStats :: "generation_stats option"

definition initial_generator_state :: generator_state where
  "initial_generator_state =
     \<lparr>timetable = JNull, isLoading = False, error = JStr [], generationStats = None\<rparr>"

text \<open>\<open>Math.round((endTime - startTime) / 1000)\<close> on integer milliseconds: halves go up.\<close>

definition roundSeconds :: "int \<Rightarrow> int \<Rightarrow> int" where
  "roundSeconds startTime endTime = (endTime - startTime + 500) div 1000"

text \<open>
  The \<open>catch\<close> block:
  \<^verbatim>\<open>setError(err.response?.data?.error || 'An error occurred during generation.');\<close>
  Reading \<open>err.response\<close> itself is not guarded; should it throw, no error is set.
\<close>

definition catchBlock :: "generator_state \<Rightarrow> jsval \<Rightarrow> generator_state" where
  "catchBlock st err =
     (case getProp err ''response'' of
        Inl e \<Rightarrow> st
      | Inr response \<Rightarrow>
          st\<lparr>error := js_or (optChain (optChain response ''data'') ''error'')
                          (JStr ''An error occurred during generation.'')\<rparr>)"

text \<open>
  The \<open>try\<close> block after the request has resolved with body \<open>data\<close>:
  \<^verbatim>\<open>
  setTimetable(response.data.schedule);
  setGenerationStats({
    generationTime: Math.round((endTime - startTime) / 1000),
    totalSlots: response.data.schedule?.totalSlots || 0,
    assignedSlots: response.data.schedule?.assignedSlots || 0,
    conflicts: response.data.schedule?.conflicts || 0
  });
  \<close>
  \<open>response.data.schedule\<close> throws when the body is \<open>null\<close> or \<open>undefined\<close>; the
  exception is then handled by the \<open>catch\<close> block like a rejection.
\<close>

definition tryBlock :: "generator_state \<Rightarrow> jsval \<Rightarrow> int \<Rightarrow> int \<Rightarrow> generator_state" where
  "tryBlock st data startTime endTime =
     (case getProp data ''schedule'' of
        Inl e \<Rightarrow> catchBlock st (JObj [(''name'', JStr ''TypeError'')])
      | Inr schedule \<Rightarrow>
          st\<lparr>timetable := schedule,
             generationStats := Some
               \<lparr>generationTime = roundSeconds startTime endTime,
                totalSlots = js_or (optChain schedule ''totalSlots'') (JNum 0),
                assignedSlots = js_or (optChain schedule ''assignedSlots'') (JNum 0),
                conflicts = js_or (optChain schedule ''conflicts'') (JNum 0)\<rparr>\<rparr>)"

text \<open>
  \<open>handleGenerate\<close>, from the click to the state after \<open>finally\<close>. The outcome of the
  request and the two clock readings are the inputs.
\<close>

definition handleGenerate :: "generator_state \<Rightarrow> axios_outcome \<Rightarrow> int \<Rightarrow> int \<Rightarrow> generator_state" where
  "handleGenerate st outcome startTime endTime =
     (let cleared = st\<lparr>isLoading := True, error := JStr [], timetable := JNull,
                        generationStats := None\<rparr>;
          settled = (case outcome of
                       Resolved data \<Rightarrow> tryBlock cleared data startTime endTime
                     | Rejected err \<Rightarrow> catchBlock cleared err)
      in settled\<lparr>isLoading := False\<rparr>)"

text \<open>
  The statistics as the page's description states them: a field of the schedule, and \<open>0\<close>
  where the field (or the whole schedule) is missing; a field is expected to hold an
  integer. The error field of the server's response body, for a rejection.
\<close>

definition fieldOrZero :: "jsval \<Rightarrow> string \<Rightarrow> jsval" where
  "fieldOrZero schedule p =
     (case optChain schedule p of JUndefined \<Rightarrow> JNum 0 | v \<Rightarrow> v)"

definition integerOrMissing :: "jsval \<Rightarrow> bool" where
  "integerOrMissing v = (case v of JUndefined \<Rightarrow> True | JNum n \<Rightarrow> True | _ \<Rightarrow> False)"

definition serverErrorField :: "jsval \<Rightarrow> jsval" where
  "serverErrorField err = optChain (optChain (optChain err ''response'') ''data'') ''error''"

text \<open>Sample responses: a schedule without a \<open>conflicts\<close> field, and two failures.\<close>

definition sample_schedule :: jsval where
  "sample_schedule =
     JObj [(''assignments'', JArr []), (''totalSlots'', JNum 40), (''assignedSlots'', JNum 38)]"

definition sample_failure :: jsval where
  "sample_failure =
     JObj [(''message'', JStr ''Request failed with status code 500''),
           (''response'', JObj [(''status'', JNum 500),
                                (''data'', JObj [(''error'', JStr ''No rooms available'')])])]"

definition sample_failure_empty :: jsval where
  "sample_failure_empty =
     JObj [(''message'', JStr ''Request failed with status code 500''),
           (''response'', JObj [(''status'', JNum 500),
                                (''data'', JObj [(''error'', JStr [])])])]"

section \<open>The timetable generation engine\<close>

text \<open>
  The engine is no part of the front-end sources: the generator page only posts to
  \<open>/api/generate\<close> and shows what comes back. Each definition of this section is
  therefore modelled from the specification of the engine, section by section, and says
  so. Identifiers are natural numbers; a time slot is a (day, slot) pair of the grid.
\<close>

text \<open>Modelled from the spec: Faculty of the data model (section 3), the engine's input record.\<close>

record Faculty =
  fac_id :: nat
  fac_name :: string
  fac_department :: string
  qualifiedSubjects :: "nat list"
  maxHoursPerWeek :: nat
  unavailability :: "(nat \<times> nat) list"

text \<open>Modelled from the spec: Subject of the data model (section 3); the duration is in slot units.\<close>

record Subject =
  sub_id :: nat
  sub_name :: string
  sessionsPerWeek :: nat
  duration :: nat
  servedDepartments :: "string list"

text \<open>Modelled from the spec: the room type of the data model (lecture, lab, hall).\<close>

datatype RoomType = Lecture | Lab | Hall

text \<open>
  Modelled from the spec: Room of the data model (section 3). A room is always available
  unless a (day, slot) pair is marked in \<open>roomUnavailable\<close>.
\<close>

record Room =
  room_id :: nat
  capacity :: nat
  roomType :: RoomType
  roomUnavailable :: "(nat \<times> nat) list"

text \<open>Modelled from the spec: Batch of the data model (section 3), with its ordered subject identifiers.\<close>

record Batch =
  batch_id :: nat
  batch_department :: string
  batch_year :: nat
  strength :: nat
  batchSubjects :: "nat list"

text \<open>Modelled from the spec: the Time Grid (section 3), working days times slots per day.\<close>

record TimeGrid =
  days :: nat
  slotsPerDay :: nat

text \<open>Modelled from the spec: the snapshot of records that crosses the request boundary (section 6).\<close>

record RawInput =
  in_faculties :: "Faculty list"
  in_subjects :: "Subject list"
  in_rooms :: "Room list"
  in_batches :: "Batch list"
  in_grid :: TimeGrid

text \<open>
  Modelled from the spec: a session unit (section 3 and glossary), one required occurrence
  of a (Batch, Subject) pair; \<open>su_index\<close> numbers the occurrences of the pair.
\<close>

record SessionUnit =
  su_batch :: Batch
  su_subject :: Subject
  su_index :: nat

text \<open>Modelled from the spec: an Assignment (section 3), the tuple (session-unit, faculty, room, day, slot).\<close>

record Assignment =
  a_unit :: SessionUnit
  a_faculty :: Faculty
  a_room :: Room
  a_day :: nat
  a_slot :: nat

text \<open>
  Modelled from the spec: the typed model of section 4.1, the records of the snapshot and
  the session-unit list derived from them. The lookup indices of section 4.1 are the
  functions \<open>qualifiedFaculty\<close> and \<open>sufficientRooms\<close> below.
\<close>

record Model =
  m_faculties :: "Faculty list"
  m_subjects :: "Subject list"
  m_rooms :: "Room list"
  m_batches :: "Batch list"
  m_grid :: TimeGrid
  sessionUnits :: "SessionUnit list"

text \<open>Modelled from the spec: the Schedule of the response boundary (section 6) with its statistics.\<close>

record Schedule =
  assignments :: "Assignment list"
  s_totalSlots :: nat
  s_assignedSlots :: nat
  s_conflicts :: nat

text \<open>Modelled from the spec: the options of \<open>generate\<close> (section 6).\<close>

record Options =
  maxAlternatives :: nat
  timeLimit :: nat
  backtrackBudget :: nat

text \<open>Modelled from the spec: the one error of the engine (section 7).\<close>

datatype EngineError = ModelError

subsection \<open>Entity Model Builder\<close>

text \<open>
  Modelled from the spec: the qualified-faculty-for-subject index of section 4.1, the
  faculty of the input whose qualified subjects include the subject.
\<close>

definition qualifiedFaculty :: "Faculty list \<Rightarrow> Subject \<Rightarrow> Faculty list" where
  "qualifiedFaculty fs s = filter (\<lambda>f. sub_id s \<in> set (qualifiedSubjects f)) fs"

text \<open>
  Modelled from the spec: the capacity-sufficient-rooms-for-batch index of section 4.1.
\<close>

definition sufficientRooms :: "Room list \<Rightarrow> Batch \<Rightarrow> Room list" where
  "sufficientRooms rs b = filter (\<lambda>r. strength b \<le> capacity r) rs"

text \<open>Modelled from the spec: the subject lookup by identifier (section 4.1).\<close>

definition findSubject :: "Subject list \<Rightarrow> nat \<Rightarrow> Subject option" where
  "findSubject ss sid = find (\<lambda>s. sub_id s = sid) ss"

text \<open>
  Modelled from the spec: the three reasons for a \<open>ModelError\<close> (section 4.1): a subject
  without qualified faculty in the input, a batch whose strength exceeds every room's
  capacity, a batch that refers to a subject identifier that is not present.
\<close>

definition modelErrors :: "RawInput \<Rightarrow> bool" where
  "modelErrors raw =
     (list_ex (\<lambda>s. qualifiedFaculty (in_faculties raw) s = []) (in_subjects raw) \<or>
      list_ex (\<lambda>b. sufficientRooms (in_rooms raw) b = []) (in_batches raw) \<or>
      list_ex (\<lambda>b. list_ex (\<lambda>sid. findSubject (in_subjects raw) sid = None) (batchSubjects b))
        (in_batches raw))"

text \<open>
  Modelled from the spec: the expansion of a (Batch, Subject, required-count) triple into
  session units (section 3), batch by batch and subject by subject in their input order.
\<close>

definition unitsOfBatch :: "Subject list \<Rightarrow> Batch \<Rightarrow> SessionUnit list" where
  "unitsOfBatch ss b =
     concat (map (\<lambda>sid. case findSubject ss sid of
                          None \<Rightarrow> []
                        | Some s \<Rightarrow> map (\<lambda>k. \<lparr>su_batch = b, su_subject = s, su_index = k\<rparr>)
                                       [0..<sessionsPerWeek s])
                 (batchSubjects b))"

text \<open>
  Modelled from the spec: the Entity Model Builder (section 4.1), whose code is not among
  the sources.
\<close>

definition buildModel :: "RawInput \<Rightarrow> EngineError + Model" where
  "buildModel raw =
     (if modelErrors raw then Inl ModelError
      else Inr \<lparr>m_faculties = in_faculties raw, m_subjects = in_subjects raw,
                m_rooms = in_rooms raw, m_batches = in_batches raw, m_grid = in_grid raw,
                sessionUnits = concat (map (unitsOfBatch (in_subjects raw)) (in_batches raw))\<rparr>)"

subsection \<open>Constraint Formulator\<close>

text \<open>Modelled from the spec: the grid order of the (day, slot) pairs (section 3), day by day.\<close>

definition gridSlots :: "TimeGrid \<Rightarrow> (nat \<times> nat) list" where
  "gridSlots g = concat (map (\<lambda>d. map (\<lambda>s. (d, s)) [0..<slotsPerDay g]) [0..<days g])"

text \<open>Modelled from the spec: the (day, slot) pair of an assignment.\<close>

definition slotOf :: "Assignment \<Rightarrow> nat \<times> nat" where
  "slotOf a = (a_day a, a_slot a)"

text \<open>
  Modelled from the spec: the occupancy of a faculty member (hard constraint 1 of section
  4.2): some committed assignment has this faculty in this (day, slot).
\<close>

definition facultyBusy :: "Assignment list \<Rightarrow> Faculty \<Rightarrow> nat \<times> nat \<Rightarrow> bool" where
  "facultyBusy A f t = list_ex (\<lambda>a. fac_id (a_faculty a) = fac_id f \<and> slotOf a = t) A"

text \<open>Modelled from the spec: the occupancy of a room (hard constraint 2 of section 4.2).\<close>

definition roomBusy :: "Assignment list \<Rightarrow> Room \<Rightarrow> nat \<times> nat \<Rightarrow> bool" where
  "roomBusy A r t = list_ex (\<lambda>a. room_id (a_room a) = room_id r \<and> slotOf a = t) A"

text \<open>Modelled from the spec: the occupancy of a batch (hard constraint 3 of section 4.2).\<close>

definition batchBusy :: "Assignment list \<Rightarrow> Batch \<Rightarrow> nat \<times> nat \<Rightarrow> bool" where
  "batchBusy A b t = list_ex (\<lambda>a. batch_id (su_batch (a_unit a)) = batch_id b \<and> slotOf a = t) A"

text \<open>
  Modelled from the spec: the hours assigned to a faculty member, the sum of the durations
  of the sessions assigned to it (hard constraint 7 of section 4.2).
\<close>

definition assignedHours :: "Assignment list \<Rightarrow> Faculty \<Rightarrow> nat" where
  "assignedHours A f =
     sum_list (map (\<lambda>a. duration (su_subject (a_unit a)))
                 (filter (\<lambda>a. fac_id (a_faculty a) = fac_id f) A))"

subsection \<open>Search Engine\<close>

text \<open>
  Modelled from the spec: what makes a (faculty, room, slot) combination a candidate for a
  session unit in the current state (section 4.3): the faculty is available in the slot,
  the room is free, and the slot is not yet used by this faculty, this room or this batch.
  Qualification and capacity are settled by the two indices the combination is drawn from.
  These are hard constraints 1 to 6, the ones that section 4.4 has checked during search;
  the weekly-hour cap (hard constraint 7) is not tested here, and how the search is to
  resolve it is not part of this model.
\<close>

definition feasible :: "Assignment list \<Rightarrow> SessionUnit \<Rightarrow> Faculty \<Rightarrow> Room \<Rightarrow> nat \<times> nat \<Rightarrow> bool" where
  "feasible A u f r t =
     (t \<notin> set (unavailability f) \<and> t \<notin> set (roomUnavailable r) \<and>
      \<not> facultyBusy A f t \<and> \<not> roomBusy A r t \<and> \<not> batchBusy A (su_batch u) t)"

text \<open>
  Modelled from the spec: the candidates of a session unit (section 4.3), the cross-product
  of qualified faculty, capacity-sufficient rooms and slots, in the stable tie-break order:
  faculty with the lowest assigned hours first, then the smallest sufficient room, then the
  earliest (day, slot) in grid order. The data model gives a subject no required room
  type, so no room is left out for its type.
\<close>

definition candidates :: "Model \<Rightarrow> Assignment list \<Rightarrow> SessionUnit \<Rightarrow> Assignment list" where
  "candidates m A u =
     concat (map (\<lambda>f.
       concat (map (\<lambda>r.
         map (\<lambda>t. \<lparr>a_unit = u, a_faculty = f, a_room = r, a_day = fst t, a_slot = snd t\<rparr>)
           (filter (feasible A u f r) (gridSlots (m_grid m))))
         (sort_key capacity (sufficientRooms (m_rooms m) (su_batch u)))))
       (sort_key (assignedHours A) (qualifiedFaculty (m_faculties m) (su_subject u))))"

text \<open>
  Modelled from the spec: the processing order of the session units (section 4.3), most
  constrained first: fewest combinations of qualified faculty, capacity-sufficient room and
  available slot first, units with equally many in their order in the model.
\<close>

definition orderUnits :: "Model \<Rightarrow> SessionUnit list" where
  "orderUnits m = sort_key (\<lambda>u. length (candidates m [] u)) (sessionUnits m)"

text \<open>
  Modelled from the spec: how a search over a list of session units ends (section 4.3):
  every unit is assigned, the candidates are exhausted and the engine backtracks, or the
  backtrack budget is exceeded.
\<close>

datatype Outcome = Complete "Assignment list" | Backtrack | OutOfBudget

text \<open>
  Modelled from the spec: the best partial assignment found so far (section 4.3). The spec
  names no order among partial assignments; the one with more committed session units
  (the evaluator's \<open>assignedSlots\<close>) is the better one, the earlier one among equals.
\<close>

definition better :: "Assignment list \<Rightarrow> Assignment list \<Rightarrow> Assignment list" where
  "better best A = (if length best < length A then A else best)"

text \<open>
  Modelled from the spec: the depth-first search with backtracking of section 4.3, whose
  code is not among the sources.
  \<open>solve\<close> assigns the remaining session units in order; \<open>tryCandidates\<close> commits the
  candidates of one unit in turn. A candidate that is found is committed and the engine
  goes on to the next unit; when the candidates of a unit are exhausted the engine
  backtracks to the previous unit, undoes its commitment and tries that unit's next
  candidate. Each backtrack is paid from the budget; a backtrack with no budget left ends
  the search. The functions return the outcome, the budget left and the best partial
  assignment seen.
\<close>

fun solve :: "Model \<Rightarrow> SessionUnit list \<Rightarrow> Assignment list \<Rightarrow> nat \<Rightarrow> Assignment list
    \<Rightarrow> Outcome \<times> nat \<times> Assignment list"
  and tryCandidates :: "Model \<Rightarrow> SessionUnit list \<Rightarrow> Assignment list \<Rightarrow> Assignment list
    \<Rightarrow> nat \<Rightarrow> Assignment list \<Rightarrow> Outcome \<times> nat \<times> Assignment list"
where
  "solve m [] A b best = (Complete A, b, better best A)"
| "solve m (u # us) A b best = tryCandidates m us A (candidates m A u) b (better best A)"
| "tryCandidates m us A [] b best = (Backtrack, b, best)"
| "tryCandidates m us A (c # cs) b best =
     (case solve m us (c # A) b best of
        (Backtrack, b', best') \<Rightarrow>
          (case b' of
             0 \<Rightarrow> (OutOfBudget, 0, best')
           | Suc b'' \<Rightarrow> tryCandidates m us A cs b'' best')
      | result \<Rightarrow> result)"

text \<open>
  Modelled from the spec: one search run (section 4.3). Run \<open>0\<close> is the search in the
  stable order; run \<open>k\<close> is the re-run with a perturbed order, which starts the most
  constrained unit at its \<open>k\<close>-th alternate choice. The run gives the complete
  assignment, or the best partial one when the budget or the candidates run out.
\<close>

definition runSearch :: "Model \<Rightarrow> nat \<Rightarrow> nat \<Rightarrow> Assignment list" where
  "runSearch m k b =
     (case orderUnits m of
        [] \<Rightarrow> []
      | u # us \<Rightarrow>
          (case tryCandidates m us [] (rotate k (candidates m [] u)) b [] of
             (Complete S, b', best) \<Rightarrow> S
           | (other, b', best) \<Rightarrow> best))"

subsection \<open>Solution Evaluator\<close>

text \<open>
  Modelled from the spec: the number of faculty members whose assigned hours exceed their
  weekly maximum, the violations of hard constraint 7 that section 4.4 reports.
\<close>

definition overloadedFaculty :: "Model \<Rightarrow> Assignment list \<Rightarrow> Faculty list" where
  "overloadedFaculty m A = filter (\<lambda>f. maxHoursPerWeek f < assignedHours A f) (m_faculties m)"

text \<open>
  Modelled from the spec: the Solution Evaluator's statistics of section 4.4, whose code
  is not among the sources. \<open>totalSlots\<close> is the number of
  session units (the full demand), \<open>assignedSlots\<close> the number of units with a committed
  assignment, \<open>conflicts\<close> the residual conflicts of the glossary: violations of the
  weekly-hour cap and unmet demand.
\<close>

definition evaluate :: "Model \<Rightarrow> Assignment list \<Rightarrow> Schedule" where
  "evaluate m A =
     \<lparr>assignments = A,
      s_totalSlots = length (sessionUnits m),
      s_assignedSlots = length A,
      s_conflicts = length (overloadedFaculty m A) + (length (sessionUnits m) - length A)\<rparr>"

text \<open>
  Modelled from the spec: deduplication by assignment-set equality (section 4.3); of two
  schedules with the same set of assignments the earlier one is kept.
\<close>

definition dedupe :: "Schedule list \<Rightarrow> Schedule list" where
  "dedupe ss =
     foldl (\<lambda>acc s. if list_ex (\<lambda>s'. set (assignments s') = set (assignments s)) acc
                     then acc else acc @ [s]) [] ss"

text \<open>
  Modelled from the spec: the search runs of one request (section 4.3), the search in the
  stable order and its re-runs with perturbed orders, \<open>maxAlternatives\<close> runs in all,
  each one evaluated.
\<close>

definition allRuns :: "Model \<Rightarrow> Options \<Rightarrow> Schedule list" where
  "allRuns m opts =
     map (\<lambda>k. evaluate m (runSearch m k (backtrackBudget opts))) [0..<maxAlternatives opts]"

text \<open>
  Modelled from the spec: the single operation of the engine (section 6), whose code is
  not among the sources,
  \<open>generate(model, options) -> Result<Schedule[], ModelError>\<close>. The model is built first
  and a \<open>ModelError\<close> ends the request; otherwise the search runs are made, deduplicated,
  ranked by the soft-objective score, highest first, and cut to \<open>maxAlternatives\<close>.
  The weights of the soft objectives are not given by the spec: the score is the
  parameter \<open>score\<close>. The time limit is wall-clock time and bounds nothing here; the
  search is bounded by the backtrack budget.
\<close>

definition generate :: "(Model \<Rightarrow> Assignment list \<Rightarrow> int) \<Rightarrow> RawInput \<Rightarrow> Options
    \<Rightarrow> EngineError + Schedule list" where
  "generate score raw opts =
     (case buildModel raw of
        Inl e \<Rightarrow> Inl e
      | Inr m \<Rightarrow>
          Inr (take (maxAlternatives opts)
                 (sort_key (\<lambda>s. - score m (assignments s)) (dedupe (allRuns m opts)))))"

subsection \<open>The hard constraints of a set of assignments\<close>

text \<open>
  Modelled from the spec: hard constraints 1 to 3 of section 4.2 for a list of
  assignments: no two of them share a faculty member and a (day, slot), nor a room and a
  (day, slot), nor a batch and a (day, slot).
\<close>

definition noDoubleBooking :: "Assignment list \<Rightarrow> bool" where
  "noDoubleBooking A =
     (distinct (map (\<lambda>a. (fac_id (a_faculty a), a_day a, a_slot a)) A) \<and>
      distinct (map (\<lambda>a. (room_id (a_room a), a_day a, a_slot a)) A) \<and>
      distinct (map (\<lambda>a. (batch_id (su_batch (a_unit a)), a_day a, a_slot a)) A))"

text \<open>
  Modelled from the spec: hard constraints 4 to 6 of section 4.2 for one assignment: the
  room holds the batch, the faculty member is in the qualified-faculty set of the subject,
  and the (day, slot) is not in the faculty member's unavailability set.
\<close>

definition wellPlaced :: "Model \<Rightarrow> Assignment \<Rightarrow> bool" where
  "wellPlaced m a =
     (strength (su_batch (a_unit a)) \<le> capacity (a_room a) \<and>
      a_faculty a \<in> set (qualifiedFaculty (m_faculties m) (su_subject (a_unit a))) \<and>
      (a_day a, a_slot a) \<notin> set (unavailability (a_faculty a)))"

text \<open>
  An assignment list that meets hard constraints 1 to 6, the constraints that section 4.4
  calls structural: the invariant of the search.
\<close>

definition validAssignments :: "Model \<Rightarrow> Assignment list \<Rightarrow> bool" where
  "validAssignments m A = (noDoubleBooking A \<and> list_all (wellPlaced m) A)"

text \<open>
  A search result whose complete assignment, if any, and whose best partial assignment
  meet the structural constraints.
\<close>

definition validResult :: "Model \<Rightarrow> Outcome \<times> nat \<times> Assignment list \<Rightarrow> bool" where
  "validResult m res =
     (validAssignments m (snd (snd res)) \<and>
      (\<forall>S. fst res = Complete S \<longrightarrow> validAssignments m S))"

text \<open>
  Sample requests. Scenario A of section 8: one batch of 30, one subject with two sessions
  a week, one qualified faculty member, one room of 40. Scenario B: the batch has 50
  students. Scenario C: two batches need the one qualified faculty member for four
  sessions in a grid of three slots.
\<close>

definition sample_teacher :: Faculty where
  "sample_teacher =
     \<lparr>fac_id = 1, fac_name = ''Rao'', fac_department = ''CS'', qualifiedSubjects = [1],
      maxHoursPerWeek = 10, unavailability = []\<rparr>"

definition sample_subject :: Subject where
  "sample_subject =
     \<lparr>sub_id = 1, sub_name = ''Algorithms'', sessionsPerWeek = 2, duration = 1,
      servedDepartments = [''CS'']\<rparr>"

definition sample_room :: Room where
  "sample_room = \<lparr>room_id = 1, capacity = 40, roomType = Lecture, roomUnavailable = []\<rparr>"

definition sample_batch :: Batch where
  "sample_batch =
     \<lparr>batch_id = 1, batch_department = ''CS'', batch_year = 2, strength = 30,
      batchSubjects = [1]\<rparr>"

definition scenarioA :: RawInput where
  "scenarioA =
     \<lparr>in_faculties = [sample_teacher], in_subjects = [sample_subject], in_rooms = [sample_room],
      in_batches = [sample_batch], in_grid = \<lparr>days = 1, slotsPerDay = 3\<rparr>\<rparr>"

definition scenarioB :: RawInput where
  "scenarioB = scenarioA\<lparr>in_batches := [sample_batch\<lparr>strength := 50\<rparr>]\<rparr>"

definition scenarioC :: RawInput where
  "scenarioC = scenarioA\<lparr>in_batches := [sample_batch, sample_batch\<lparr>batch_id := 2\<rparr>]\<rparr>"

definition sample_options :: Options where
  "sample_options = \<lparr>maxAlternatives = 1, timeLimit = 30, backtrackBudget = 100\<rparr>"

definition noScore :: "Model \<Rightarrow> Assignment list \<Rightarrow> int" where
  "noScore m A = 0"

definition sample_assignment :: "Batch \<Rightarrow> nat \<Rightarrow> nat \<Rightarrow> nat \<Rightarrow> Assignment" where
  "sample_assignment b k d s =
     \<lparr>a_unit = \<lparr>su_batch = b, su_subject = sample_subject, su_index = k\<rparr>,
      a_faculty = sample_teacher, a_room = sample_room, a_day = d, a_slot = s\<rparr>"

text \<open>The schedules that the engine returns for scenarios A and C.\<close>

definition scheduleA :: Schedule where
  "scheduleA =
     \<lparr>assignments = [sample_assignment sample_batch 1 0 1, sample_assignment sample_batch 0 0 0],
      s_totalSlots = 2, s_assignedSlots = 2, s_conflicts = 0\<rparr>"

definition scheduleC :: Schedule where
  "scheduleC =
     \<lparr>assignments =
        [sample_assignment (sample_batch\<lparr>batch_id := 2\<rparr>) 0 0 2,
         sample_assignment sample_batch 1 0 1, sample_assignment sample_batch 0 0 0],
      s_totalSlots = 4, s_assignedSlots = 3, s_conflicts = 1\<rparr>"

section \<open>Properties of the FacultyList pagination\<close>

lemma js_slice_page:
  assumes "0 \<le> s" "0 \<le> n"
  shows "js_slice xs s (s + n) = take (nat n) (drop (nat s) xs)"
proof (cases "s \<le> int (length xs)")
  case True
  have "take (min (nat n) (length (drop (nat s) xs))) (drop (nat s) xs) = take (nat n) (drop (nat s) xs)"
    by (simp add: min_def)
  moreover from True assms have "nat (min (s + n) (int (length xs)) - s) = min (nat n) (length (drop (nat s) xs))"
    by (simp add: min_def) linarith
  ultimately show ?thesis using True assms
    by (simp add: js_slice_def Let_def)
next
  case False
  with assms show ?thesis
    by (auto simp: js_slice_def Let_def min_def max_def)
qed

lemma ceil_pages_bounds:
  assumes "0 < (n::int)"
  shows "int m \<le> \<lceil>real m / real_of_int n\<rceil> * n" and "0 \<le> \<lceil>real m / real_of_int n\<rceil>"
    and "(\<lceil>real m / real_of_int n\<rceil> - 1) * n < int m"
proof -
  let ?c = "\<lceil>real m / real_of_int n\<rceil>"
  from assms have n: "0 < real_of_int n" by simp
  have "real m / real_of_int n \<le> real_of_int ?c" by (rule le_of_int_ceiling)
  then have "real m \<le> real_of_int ?c * real_of_int n"
    using n by (simp only: pos_divide_le_eq)
  then have "real_of_int (int m) \<le> real_of_int (?c * n)" by simp
  then show "int m \<le> ?c * n" by (simp only: of_int_le_iff)
  from n have "0 \<le> real m / real_of_int n" by simp
  with \<open>real m / real_of_int n \<le> real_of_int ?c\<close> have "0 \<le> real_of_int ?c" by linarith
  then show "0 \<le> ?c" by (simp only: of_int_0_le_iff)
  have "real_of_int ?c - 1 < real m / real_of_int n" by linarith
  then have "(real_of_int ?c - 1) * real_of_int n < real m"
    using n by (simp only: pos_less_divide_eq)
  then have "real_of_int ((?c - 1) * n) < real_of_int (int m)" by simp
  then show "(?c - 1) * n < int m" by (simp only: of_int_less_iff)
qed

lemma facultyMatches_page:
  "facultyMatches (st\<lparr>fl_currentPage := q\<rparr>) = facultyMatches st"
  by (rule ext) (simp add: facultyMatches_def)

lemma filtered_indep_page [simp]:
  "filteredAndSortedFaculties faculties (st\<lparr>fl_currentPage := q\<rparr>) = filteredAndSortedFaculties faculties st"
  by (simp add: filteredAndSortedFaculties_def facultyMatches_page)

lemma pageOf_eq:
  assumes "0 < fl_itemsPerPage st" "1 \<le> q"
  shows "pageOf faculties st q =
     take (nat (fl_itemsPerPage st)) (drop (nat ((q - 1) * fl_itemsPerPage st)) (filteredAndSortedFaculties faculties st))"
  using assms by (simp add: pageOf_def paginatedFaculties_def startIndex_def js_slice_page)

lemma concat_upto_pages:
  assumes "0 \<le> N" "0 < (n::int)"
  shows "concat (map (\<lambda>q. take (nat n) (drop (nat ((q - 1) * n)) xs)) [1..N]) = take (nat (N * n)) xs"
  using assms(1)
proof (induction N rule: int_ge_induct)
  case base
  show ?case by simp
next
  case (step i)
  from step.hyps assms(2) have "[1..i + 1] = [1..i] @ [i + 1]"
    by (simp add: upto_rec2)
  moreover from step.hyps assms(2) have "nat ((i + 1) * n) = nat (i * n) + nat n"
    by (simp add: nat_add_distrib distrib_right)
  ultimately show ?case using step.IH
    by (simp add: take_add)
qed

lemma take_drop_nth:
  assumes "a + j = i" "i < length xs" "j < m"
  shows "j < length (take m (drop a xs))" and "take m (drop a xs) ! j = xs ! i"
  using assms by auto

text \<open>
  Claim C10. In the faculty list, with a positive page size and a current page of at least
  one, \<open>paginatedFaculties\<close> is the contiguous run of \<open>filteredAndSortedFaculties\<close>
  that starts at index \<open>(currentPage - 1) * itemsPerPage\<close> and has at most
  \<open>itemsPerPage\<close> elements; \<open>totalPages\<close> is the ceiling of the filtered length
  divided by \<open>itemsPerPage\<close>; the pages \<open>1..totalPages\<close> put end to end give the
  filtered list back, and every position of the filtered list lies on exactly one of them.
\<close>

theorem paginatedFaculties_partition:
  assumes n: "0 < fl_itemsPerPage st" and p: "1 \<le> fl_currentPage st"
  shows "paginatedFaculties faculties st =
           take (nat (fl_itemsPerPage st))
             (drop (nat ((fl_currentPage st - 1) * fl_itemsPerPage st))
               (filteredAndSortedFaculties faculties st))
       \<and> int (length (paginatedFaculties faculties st)) \<le> fl_itemsPerPage st
       \<and> (\<exists>N. totalPages faculties st = Some N
             \<and> N = \<lceil>real (length (filteredAndSortedFaculties faculties st)) / real_of_int (fl_itemsPerPage st)\<rceil>
             \<and> concat (map (pageOf faculties st) [1..N]) = filteredAndSortedFaculties faculties st
             \<and> (\<forall>i < length (filteredAndSortedFaculties faculties st).
                   \<exists>!q. 1 \<le> q \<and> q \<le> N
                     \<and> (\<exists>j < length (pageOf faculties st q).
                           (q - 1) * fl_itemsPerPage st + int j = int i
                         \<and> pageOf faculties st q ! j = filteredAndSortedFaculties faculties st ! i)))"
proof -
  let ?xs = "filteredAndSortedFaculties faculties st"
  let ?n = "fl_itemsPerPage st"
  let ?N = "\<lceil>real (length ?xs) / real_of_int ?n\<rceil>"
  have page: "paginatedFaculties faculties st =
      take (nat ?n) (drop (nat ((fl_currentPage st - 1) * ?n)) ?xs)"
    using pageOf_eq [OF n p, of faculties] by (simp add: pageOf_def)
  have len: "int (length (paginatedFaculties faculties st)) \<le> ?n"
    unfolding page using n by simp
  have tp: "totalPages faculties st = Some ?N"
    using n by (simp add: totalPages_def)
  note b = ceil_pages_bounds [OF n, of "length ?xs"]
  have "concat (map (pageOf faculties st) [1..?N]) =
        concat (map (\<lambda>q. take (nat ?n) (drop (nat ((q - 1) * ?n)) ?xs)) [1..?N])"
    by (rule arg_cong [where f = concat], rule map_cong) (simp_all add: pageOf_eq [OF n])
  also have "\<dots> = take (nat (?N * ?n)) ?xs"
    by (rule concat_upto_pages [OF b(2) n])
  also have "\<dots> = ?xs"
    using b(1) by simp
  finally have cat: "concat (map (pageOf faculties st) [1..?N]) = ?xs" .
  have uniq: "\<exists>!q. 1 \<le> q \<and> q \<le> ?N
        \<and> (\<exists>j < length (pageOf faculties st q).
              (q - 1) * ?n + int j = int i \<and> pageOf faculties st q ! j = ?xs ! i)"
    if i: "i < length ?xs" for i
  proof (rule ex1I [where a = "int i div ?n + 1"])
    let ?q = "int i div ?n + 1"
    let ?j = "nat (int i mod ?n)"
    have q1: "1 \<le> ?q" using n by (simp add: pos_imp_zdiv_nonneg_iff)
    have split: "(?q - 1) * ?n + int ?j = int i" using n by simp
    have jn: "int ?j < ?n" using n by simp
    have qN: "?q \<le> ?N"
    proof (rule ccontr)
      assume "\<not> ?q \<le> ?N"
      then have "?N \<le> ?q - 1" by simp
      then have "?N * ?n \<le> (?q - 1) * ?n" using n by (simp only: mult_right_mono)
      with split b(1) i show False by linarith
    qed
    have nat_lo: "nat ((?q - 1) * ?n) + ?j = i" using split q1 n
      by (metis add_diff_cancel_right' nat_int nat_int_add pos_imp_zdiv_nonneg_iff mult_nonneg_nonneg less_imp_le of_nat_0_le_iff nat_0_le)
    from jn n have jn': "?j < nat ?n" by linarith
    have jlen: "?j < length (pageOf faculties st ?q)"
      unfolding pageOf_eq [OF n q1] by (rule take_drop_nth(1) [OF nat_lo i jn'])
    have nth: "pageOf faculties st ?q ! ?j = ?xs ! i"
      unfolding pageOf_eq [OF n q1] by (rule take_drop_nth(2) [OF nat_lo i jn'])
    from q1 qN jlen split nth
    show "1 \<le> ?q \<and> ?q \<le> ?N
        \<and> (\<exists>j < length (pageOf faculties st ?q).
              (?q - 1) * ?n + int j = int i \<and> pageOf faculties st ?q ! j = ?xs ! i)"
      by blast
  next
    fix q
    assume "1 \<le> q \<and> q \<le> ?N
        \<and> (\<exists>j < length (pageOf faculties st q).
              (q - 1) * ?n + int j = int i \<and> pageOf faculties st q ! j = ?xs ! i)"
    then obtain j where q1: "1 \<le> q" and j: "j < length (pageOf faculties st q)"
      and eq: "(q - 1) * ?n + int j = int i" by blast
    from j have "j < nat ?n" by (simp add: pageOf_eq [OF n q1])
    then have "int j < ?n" by linarith
    with eq have "int i div ?n = q - 1"
      by (intro int_div_pos_eq [where r = "int j"]) (simp_all add: mult.commute)
    then show "q = int i div ?n + 1" by simp
  qed
  from page len tp cat uniq show ?thesis by blast
qed

lemma sample_filtered:
  "filteredAndSortedFaculties sample_faculties sample_faculty_state =
     [sample_faculty ''Iyer'' 8, sample_faculty ''Das'' 10, sample_faculty ''Rao'' 12]"
  by (simp add: filteredAndSortedFaculties_def sample_faculties_def sample_faculty_state_def
      sample_faculty_def facultyMatches_def facultyMatchesSearch_def toLowerCase_def js_sort_def
      compareValues_def)

theorem paginatedFaculties_partition_witness:
  "0 < fl_itemsPerPage sample_faculty_state \<and> 1 \<le> fl_currentPage sample_faculty_state
   \<and> paginatedFaculties sample_faculties sample_faculty_state = [sample_faculty ''Rao'' 12]
   \<and> totalPages sample_faculties sample_faculty_state = Some 2
   \<and> concat (map (pageOf sample_faculties sample_faculty_state) [1..2]) =
       [sample_faculty ''Iyer'' 8, sample_faculty ''Das'' 10, sample_faculty ''Rao'' 12]
   \<and> (\<exists>!q. 1 \<le> q \<and> q \<le> 2
         \<and> (\<exists>j < length (pageOf sample_faculties sample_faculty_state q).
               (q - 1) * 2 + int j = 2
             \<and> pageOf sample_faculties sample_faculty_state q ! j = sample_faculty ''Rao'' 12))"
proof -
  have n: "0 < fl_itemsPerPage sample_faculty_state"
    and p: "1 \<le> fl_currentPage sample_faculty_state"
    and n2: "fl_itemsPerPage sample_faculty_state = 2"
    and p2: "fl_currentPage sample_faculty_state = 2"
    by (simp_all add: sample_faculty_state_def)
  from paginatedFaculties_partition [OF n p, of sample_faculties]
  have page: "paginatedFaculties sample_faculties sample_faculty_state = [sample_faculty ''Rao'' 12]"
    and tot: "totalPages sample_faculties sample_faculty_state = Some 2"
    and cat: "concat (map (pageOf sample_faculties sample_faculty_state) [1..2]) =
       [sample_faculty ''Iyer'' 8, sample_faculty ''Das'' 10, sample_faculty ''Rao'' 12]"
    and all: "\<forall>i < 3. \<exists>!q. 1 \<le> q \<and> q \<le> 2
         \<and> (\<exists>j < length (pageOf sample_faculties sample_faculty_state q).
               (q - 1) * 2 + int j = int i
             \<and> pageOf sample_faculties sample_faculty_state q ! j =
                 [sample_faculty ''Iyer'' 8, sample_faculty ''Das'' 10, sample_faculty ''Rao'' 12] ! i)"
    by (simp_all add: sample_filtered n2 p2)
  from all have "\<exists>!q. 1 \<le> q \<and> q \<le> 2
         \<and> (\<exists>j < length (pageOf sample_faculties sample_faculty_state q).
               (q - 1) * 2 + int j = int 2
             \<and> pageOf sample_faculties sample_faculty_state q ! j =
                 [sample_faculty ''Iyer'' 8, sample_faculty ''Das'' 10, sample_faculty ''Rao'' 12] ! 2)"
    by (rule allE [where x = 2]) simp
  then have one: "\<exists>!q. 1 \<le> q \<and> q \<le> 2
         \<and> (\<exists>j < length (pageOf sample_faculties sample_faculty_state q).
               (q - 1) * 2 + int j = 2
             \<and> pageOf sample_faculties sample_faculty_state q ! j = sample_faculty ''Rao'' 12)"
    by simp
  from n p page tot cat one show ?thesis by blast
qed

section \<open>Properties of the RoomList filter and sort\<close>

subsection \<open>Lower case\<close>






subsection \<open>Containment\<close>






subsection \<open>Decimal strings\<close>















subsection \<open>Sorting\<close>













subsection \<open>The list\<close>









section \<open>Properties of the GeneratorPage request handler\<close>

lemma js_or_integerOrMissing:
  assumes "integerOrMissing (optChain schedule p)"
  shows "js_or (optChain schedule p) (JNum 0) = fieldOrZero schedule p"
  using assms
  by (cases "optChain schedule p") (auto simp: js_or_def fieldOrZero_def integerOrMissing_def)

lemma fieldOrZero_absent:
  "fieldOrZero JUndefined p = JNum 0" "fieldOrZero JNull p = JNum 0"
  by (simp_all add: fieldOrZero_def optChain_def)

text \<open>
  Claim C7. When the request succeeds with a body that is an object, and the schedule's
  \<open>totalSlots\<close>, \<open>assignedSlots\<close> and \<open>conflicts\<close> are integers or missing, the page
  keeps the schedule and records statistics whose three fields are exactly the schedule's,
  with \<open>0\<close> for a field that is missing; all three are \<open>0\<close> when the body has no
  schedule at all.
\<close>

theorem handleGenerate_success_stats:
  assumes "getProp data ''schedule'' = Inr schedule"
    and "integerOrMissing (optChain schedule ''totalSlots'')"
    and "integerOrMissing (optChain schedule ''assignedSlots'')"
    and "integerOrMissing (optChain schedule ''conflicts'')"
  shows "timetable (handleGenerate st (Resolved data) startTime endTime) = schedule
    \<and> isLoading (handleGenerate st (Resolved data) startTime endTime) = False
    \<and> (\<exists>stats. generationStats (handleGenerate st (Resolved data) startTime endTime) = Some stats
          \<and> totalSlots stats = fieldOrZero schedule ''totalSlots''
          \<and> assignedSlots stats = fieldOrZero schedule ''assignedSlots''
          \<and> conflicts stats = fieldOrZero schedule ''conflicts''
          \<and> (schedule = JUndefined \<or> schedule = JNull \<longrightarrow>
                totalSlots stats = JNum 0 \<and> assignedSlots stats = JNum 0 \<and> conflicts stats = JNum 0))"
  using assms
  by (auto simp: handleGenerate_def tryBlock_def js_or_integerOrMissing fieldOrZero_absent)

theorem handleGenerate_success_stats_witness:
  "generationStats (handleGenerate initial_generator_state
       (Resolved (JObj [(''schedule'', sample_schedule)])) 1000 3600) =
     Some \<lparr>generationTime = 3, totalSlots = JNum 40, assignedSlots = JNum 38, conflicts = JNum 0\<rparr>
   \<and> timetable (handleGenerate initial_generator_state
       (Resolved (JObj [(''schedule'', sample_schedule)])) 1000 3600) = sample_schedule
   \<and> generationStats (handleGenerate initial_generator_state (Resolved (JObj [])) 1000 3600) =
     Some \<lparr>generationTime = 3, totalSlots = JNum 0, assignedSlots = JNum 0, conflicts = JNum 0\<rparr>"
proof -
  have a: "getProp (JObj [(''schedule'', sample_schedule)]) ''schedule'' = Inr sample_schedule"
    by simp
  have b: "integerOrMissing (optChain sample_schedule ''totalSlots'')"
    "integerOrMissing (optChain sample_schedule ''assignedSlots'')"
    "integerOrMissing (optChain sample_schedule ''conflicts'')"
    by (simp_all add: integerOrMissing_def optChain_def sample_schedule_def)
  have c: "fieldOrZero sample_schedule ''totalSlots'' = JNum 40"
    "fieldOrZero sample_schedule ''assignedSlots'' = JNum 38"
    "fieldOrZero sample_schedule ''conflicts'' = JNum 0"
    by (simp_all add: fieldOrZero_def optChain_def sample_schedule_def)
  have t: "generationTime (the (generationStats (handleGenerate initial_generator_state
       (Resolved (JObj [(''schedule'', sample_schedule)])) 1000 3600))) = 3"
    by (simp add: handleGenerate_def tryBlock_def roundSeconds_def)
  have a': "getProp (JObj []) ''schedule'' = Inr JUndefined" by simp
  have b': "integerOrMissing (optChain JUndefined p)" for p
    by (simp add: integerOrMissing_def optChain_def)
  have t': "generationTime (the (generationStats (handleGenerate initial_generator_state
       (Resolved (JObj [])) 1000 3600))) = 3"
    by (simp add: handleGenerate_def tryBlock_def roundSeconds_def)
  from handleGenerate_success_stats [OF a b, of initial_generator_state 1000 3600] c t
  have 1: "generationStats (handleGenerate initial_generator_state
       (Resolved (JObj [(''schedule'', sample_schedule)])) 1000 3600) =
     Some \<lparr>generationTime = 3, totalSlots = JNum 40, assignedSlots = JNum 38, conflicts = JNum 0\<rparr>"
    and 2: "timetable (handleGenerate initial_generator_state
       (Resolved (JObj [(''schedule'', sample_schedule)])) 1000 3600) = sample_schedule"
    by auto
  from handleGenerate_success_stats [OF a' b' b' b', of initial_generator_state 1000 3600] t'
  have 3: "generationStats (handleGenerate initial_generator_state (Resolved (JObj [])) 1000 3600) =
     Some \<lparr>generationTime = 3, totalSlots = JNum 0, assignedSlots = JNum 0, conflicts = JNum 0\<rparr>"
    by auto
  from 1 2 3 show ?thesis by blast
qed

text \<open>
  Claim C8, as stated, fails: a failure whose response body carries an \<open>error\<close> field that
  is the empty string shows the fixed message, not the field.
\<close>

theorem handleGenerate_error_field_counterexample:
  "serverErrorField sample_failure_empty = JStr []
   \<and> error (handleGenerate initial_generator_state (Rejected sample_failure_empty) 0 1000)
       = JStr ''An error occurred during generation.''
   \<and> error (handleGenerate initial_generator_state (Rejected sample_failure_empty) 0 1000)
       \<noteq> serverErrorField sample_failure_empty"
  by (simp add: handleGenerate_def catchBlock_def serverErrorField_def optChain_def js_or_def
      sample_failure_empty_def initial_generator_state_def)

text \<open>
  Claim C8, amended. When the request fails with an error object, the displayed message is
  the \<open>error\<close> field of the server's response body when that field is truthy (a string
  that is not empty), and the fixed string otherwise; the timetable and the statistics
  stay cleared and the loading flag is reset.
\<close>

theorem handleGenerate_failure:
  "error (handleGenerate st (Rejected (JObj ps)) startTime endTime) =
     (if truthy (serverErrorField (JObj ps)) then serverErrorField (JObj ps)
      else JStr ''An error occurred during generation.'')
   \<and> timetable (handleGenerate st (Rejected (JObj ps)) startTime endTime) = JNull
   \<and> generationStats (handleGenerate st (Rejected (JObj ps)) startTime endTime) = None
   \<and> isLoading (handleGenerate st (Rejected (JObj ps)) startTime endTime) = False"
  by (simp add: handleGenerate_def catchBlock_def serverErrorField_def optChain_def js_or_def)

theorem handleGenerate_failure_witness:
  "error (handleGenerate initial_generator_state (Rejected sample_failure) 0 1000)
     = JStr ''No rooms available''
   \<and> timetable (handleGenerate initial_generator_state (Rejected sample_failure) 0 1000) = JNull
   \<and> generationStats (handleGenerate initial_generator_state (Rejected sample_failure) 0 1000) = None"
proof -
  obtain ps where ps: "sample_failure = JObj ps"
    by (simp add: sample_failure_def)
  have "serverErrorField sample_failure = JStr ''No rooms available''"
    by (simp add: serverErrorField_def optChain_def sample_failure_def)
  with handleGenerate_failure [of initial_generator_state ps 0 1000]
  show ?thesis by (simp add: ps [symmetric])
qed

section \<open>Properties of the search engine\<close>

lemma candidate_cases:
  assumes "c \<in> set (candidates m A u)"
  obtains f r t where "c = \<lparr>a_unit = u, a_faculty = f, a_room = r, a_day = fst t, a_slot = snd t\<rparr>"
    and "f \<in> set (qualifiedFaculty (m_faculties m) (su_subject u))"
    and "r \<in> set (sufficientRooms (m_rooms m) (su_batch u))"
    and "feasible A u f r t"
  using assms by (auto simp: candidates_def)

lemma candidate_wellPlaced:
  assumes "c \<in> set (candidates m A u)"
  shows "wellPlaced m c"
  using assms
  by (elim candidate_cases) (auto simp: wellPlaced_def sufficientRooms_def feasible_def)

lemma busy_iff:
  "facultyBusy A f t \<longleftrightarrow> (fac_id f, fst t, snd t) \<in> set (map (\<lambda>a. (fac_id (a_faculty a), a_day a, a_slot a)) A)"
  "roomBusy A r t \<longleftrightarrow> (room_id r, fst t, snd t) \<in> set (map (\<lambda>a. (room_id (a_room a), a_day a, a_slot a)) A)"
  "batchBusy A b t \<longleftrightarrow> (batch_id b, fst t, snd t) \<in> set (map (\<lambda>a. (batch_id (su_batch (a_unit a)), a_day a, a_slot a)) A)"
  by (cases t; force simp: facultyBusy_def roomBusy_def batchBusy_def slotOf_def list_ex_iff)+

lemma candidate_noDoubleBooking:
  assumes "c \<in> set (candidates m A u)" and "noDoubleBooking A"
  shows "noDoubleBooking (c # A)"
  using assms
  by (elim candidate_cases) (simp add: noDoubleBooking_def feasible_def busy_iff)

lemma validAssignments_Nil: "validAssignments m []"
  by (simp add: validAssignments_def noDoubleBooking_def)

lemma validAssignments_candidate:
  "validAssignments m A \<Longrightarrow> c \<in> set (candidates m A u) \<Longrightarrow> validAssignments m (c # A)"
  by (simp add: validAssignments_def candidate_noDoubleBooking candidate_wellPlaced)

lemma validAssignments_better:
  "validAssignments m best \<Longrightarrow> validAssignments m A \<Longrightarrow> validAssignments m (better best A)"
  by (simp add: better_def)

lemma search_valid:
  "validAssignments m A \<Longrightarrow> validAssignments m best \<Longrightarrow> validResult m (solve m us A b best)"
  "validAssignments m A \<Longrightarrow> validAssignments m best \<Longrightarrow> \<forall>c \<in> set cs. validAssignments m (c # A)
     \<Longrightarrow> validResult m (tryCandidates m us A cs b best)"
proof (induction m us A b best and m us A cs b best rule: solve_tryCandidates.induct)
  case (1 m A b best)
  then show ?case by (simp add: validResult_def validAssignments_better)
next
  case (2 m u us A b best)
  then show ?case by (simp add: validAssignments_better validAssignments_candidate)
next
  case (3 m us A b best)
  then show ?case by (simp add: validResult_def)
next
  case (4 m us A c cs b best)
  from "4.prems" have cA: "validAssignments m (c # A)" by simp
  have first: "validResult m (solve m us (c # A) b best)"
    by (rule "4.IH"(1) [OF cA "4.prems"(2)])
  obtain out b' best' where res: "solve m us (c # A) b best = (out, b', best')"
    by (cases "solve m us (c # A) b best") auto
  from first res have best': "validAssignments m best'" by (simp add: validResult_def)
  show ?case
  proof (cases out)
    case (Complete S)
    with first res show ?thesis by simp
  next
    case OutOfBudget
    with first res show ?thesis by simp
  next
    case Backtrack
    show ?thesis
    proof (cases b')
      case 0
      with Backtrack res best' show ?thesis by (simp add: validResult_def)
    next
      case (Suc b'')
      have "validResult m (tryCandidates m us A cs b'' best')"
        by (rule "4.IH"(2) [OF res [symmetric] Backtrack refl Suc "4.prems"(1) best'])
          (use "4.prems"(3) in simp)
      with Backtrack res Suc show ?thesis by simp
    qed
  qed
qed

lemma runSearch_valid: "validAssignments m (runSearch m k b)"
proof (cases "orderUnits m")
  case Nil
  then show ?thesis by (simp add: runSearch_def validAssignments_Nil)
next
  case (Cons u us)
  have "validResult m (tryCandidates m us [] (rotate k (candidates m [] u)) b [])"
    by (rule search_valid(2)) (simp_all add: validAssignments_Nil validAssignments_candidate)
  then show ?thesis using Cons
    by (auto simp: runSearch_def validResult_def split: prod.splits Outcome.splits)
qed

lemma foldl_dedupe_subset:
  "set (foldl (\<lambda>acc s. if list_ex (\<lambda>s'. set (assignments s') = set (assignments s)) acc
                     then acc else acc @ [s]) acc ss) \<subseteq> set acc \<union> set ss"
proof (induction ss arbitrary: acc)
  case Nil
  show ?case by simp
next
  case (Cons s ss)
  show ?case
  proof (cases "list_ex (\<lambda>s'. set (assignments s') = set (assignments s)) acc")
    case True
    with Cons.IH [of acc] show ?thesis by auto
  next
    case False
    with Cons.IH [of "acc @ [s]"] show ?thesis by auto
  qed
qed

lemma dedupe_subset: "set (dedupe ss) \<subseteq> set ss"
  using foldl_dedupe_subset [of "[]" ss] by (simp add: dedupe_def)

lemma generate_schedule_cases:
  assumes "generate score raw opts = Inr schedules" and "sch \<in> set schedules"
  obtains m k where "buildModel raw = Inr m"
    and "sch = evaluate m (runSearch m k (backtrackBudget opts))"
    and "k < maxAlternatives opts"
proof -
  from assms(1) obtain m where m: "buildModel raw = Inr m"
    and eq: "schedules = take (maxAlternatives opts)
                 (sort_key (\<lambda>s. - score m (assignments s)) (dedupe (allRuns m opts)))"
    by (auto simp: generate_def split: sum.splits)
  from assms(2) eq have "sch \<in> set (dedupe (allRuns m opts))"
    by (auto dest: in_set_takeD)
  with dedupe_subset have "sch \<in> set (allRuns m opts)" by blast
  then obtain k where "sch = evaluate m (runSearch m k (backtrackBudget opts))"
    and "k < maxAlternatives opts"
    by (auto simp: allRuns_def)
  with m show ?thesis by (rule that)
qed

lemma buildModel_faculties: "buildModel raw = Inr m \<Longrightarrow> m_faculties m = in_faculties raw"
  by (auto simp: buildModel_def split: if_splits)

text \<open>
  Claim C1. In every schedule that a generation run returns, complete or best-effort
  partial, primary or alternative, no two assignments share a faculty member and a
  (day, slot) pair, nor a room and a (day, slot) pair, nor a batch and a (day, slot) pair.
\<close>

theorem generate_no_double_booking:
  assumes "generate score raw opts = Inr schedules" and "sch \<in> set schedules"
  shows "distinct (map (\<lambda>a. (fac_id (a_faculty a), a_day a, a_slot a)) (assignments sch))
       \<and> distinct (map (\<lambda>a. (room_id (a_room a), a_day a, a_slot a)) (assignments sch))
       \<and> distinct (map (\<lambda>a. (batch_id (su_batch (a_unit a)), a_day a, a_slot a)) (assignments sch))"
proof -
  from assms obtain m k where "sch = evaluate m (runSearch m k (backtrackBudget opts))"
    by (rule generate_schedule_cases)
  with runSearch_valid [of m k "backtrackBudget opts"] show ?thesis
    by (simp add: evaluate_def validAssignments_def noDoubleBooking_def)
qed

text \<open>
  Claim C2. For every assignment of every returned schedule, the capacity of the room is
  at least the strength of the batch, the faculty member is in the qualified-faculty set
  of the subject (a faculty member of the input whose qualified subjects include it), and
  the (day, slot) pair is not in the faculty member's unavailability set.
\<close>

theorem generate_assignments_well_placed:
  assumes "generate score raw opts = Inr schedules" and "sch \<in> set schedules"
    and "a \<in> set (assignments sch)"
  shows "strength (su_batch (a_unit a)) \<le> capacity (a_room a)
       \<and> a_faculty a \<in> set (qualifiedFaculty (in_faculties raw) (su_subject (a_unit a)))
       \<and> sub_id (su_subject (a_unit a)) \<in> set (qualifiedSubjects (a_faculty a))
       \<and> (a_day a, a_slot a) \<notin> set (unavailability (a_faculty a))"
proof -
  from assms(1,2) obtain m k where m: "buildModel raw = Inr m"
    and sch: "sch = evaluate m (runSearch m k (backtrackBudget opts))"
    by (rule generate_schedule_cases)
  from runSearch_valid [of m k "backtrackBudget opts"] sch assms(3)
  have "wellPlaced m a"
    by (simp add: evaluate_def validAssignments_def list_all_iff)
  then show ?thesis
    by (simp add: wellPlaced_def buildModel_faculties [OF m] qualifiedFaculty_def)
qed

lemma scenarioC_result: "generate noScore scenarioC sample_options = Inr [scheduleC]"
  by code_simp

lemma scenarioA_result: "generate noScore scenarioA sample_options = Inr [scheduleA]"
  by code_simp

theorem generate_no_double_booking_witness:
  "generate noScore scenarioC sample_options = Inr [scheduleC]
   \<and> s_assignedSlots scheduleC = 3 \<and> s_totalSlots scheduleC = 4
   \<and> map (\<lambda>a. (fac_id (a_faculty a), a_day a, a_slot a)) (assignments scheduleC)
       = [(1, 0, 2), (1, 0, 1), (1, 0, 0)]
   \<and> distinct (map (\<lambda>a. (fac_id (a_faculty a), a_day a, a_slot a)) (assignments scheduleC))
   \<and> distinct (map (\<lambda>a. (room_id (a_room a), a_day a, a_slot a)) (assignments scheduleC))
   \<and> distinct (map (\<lambda>a. (batch_id (su_batch (a_unit a)), a_day a, a_slot a)) (assignments scheduleC))"
proof -
  have "scheduleC \<in> set [scheduleC]" by simp
  from generate_no_double_booking [OF scenarioC_result this]
  show ?thesis
    by (simp add: scenarioC_result)
      (simp add: scheduleC_def sample_assignment_def sample_teacher_def)
qed

theorem generate_assignments_well_placed_witness:
  "generate noScore scenarioA sample_options = Inr [scheduleA]
   \<and> sample_assignment sample_batch 1 0 1 \<in> set (assignments scheduleA)
   \<and> strength sample_batch \<le> capacity sample_room
   \<and> sample_teacher \<in> set (qualifiedFaculty (in_faculties scenarioA) sample_subject)
   \<and> sub_id sample_subject \<in> set (qualifiedSubjects sample_teacher)
   \<and> (0, 1) \<notin> set (unavailability sample_teacher)"
proof -
  have s: "scheduleA \<in> set [scheduleA]" by simp
  have a: "sample_assignment sample_batch 1 0 1 \<in> set (assignments scheduleA)"
    by (simp add: scheduleA_def)
  from generate_assignments_well_placed [OF scenarioA_result s a]
  have "strength sample_batch \<le> capacity sample_room
   \<and> sample_teacher \<in> set (qualifiedFaculty (in_faculties scenarioA) sample_subject)
   \<and> sub_id sample_subject \<in> set (qualifiedSubjects sample_teacher)
   \<and> (0, 1) \<notin> set (unavailability sample_teacher)"
    by (simp add: sample_assignment_def)
  with scenarioA_result a show ?thesis by simp
qed

lemma no_qualified_iff:
  "list_ex (\<lambda>s. qualifiedFaculty fs s = []) ss \<longleftrightarrow>
     (\<exists>s \<in> set ss. \<forall>f \<in> set fs. sub_id s \<notin> set (qualifiedSubjects f))"
  by (simp add: list_ex_iff qualifiedFaculty_def filter_empty_conv)

lemma no_room_iff:
  "list_ex (\<lambda>b. sufficientRooms rs b = []) bs \<longleftrightarrow>
     (\<exists>b \<in> set bs. \<forall>r \<in> set rs. capacity r < strength b)"
  by (simp add: list_ex_iff sufficientRooms_def filter_empty_conv not_le)

lemma no_subject_iff:
  "list_ex (\<lambda>b. list_ex (\<lambda>sid. findSubject ss sid = None) (batchSubjects b)) bs \<longleftrightarrow>
     (\<exists>b \<in> set bs. \<exists>sid \<in> set (batchSubjects b). \<forall>s \<in> set ss. sub_id s \<noteq> sid)"
  by (simp add: list_ex_iff findSubject_def find_None_iff) blast

lemma modelErrors_iff:
  "modelErrors raw \<longleftrightarrow>
     (\<exists>s \<in> set (in_subjects raw). \<forall>f \<in> set (in_faculties raw). sub_id s \<notin> set (qualifiedSubjects f))
   \<or> (\<exists>b \<in> set (in_batches raw). \<forall>r \<in> set (in_rooms raw). capacity r < strength b)
   \<or> (\<exists>b \<in> set (in_batches raw). \<exists>sid \<in> set (batchSubjects b).
         \<forall>s \<in> set (in_subjects raw). sub_id s \<noteq> sid)"
  by (simp only: modelErrors_def no_qualified_iff no_room_iff no_subject_iff)

lemma foldl_dedupe_superset:
  "set acc \<subseteq> set (foldl (\<lambda>acc s. if list_ex (\<lambda>s'. set (assignments s') = set (assignments s)) acc
                     then acc else acc @ [s]) acc ss)"
proof (induction ss arbitrary: acc)
  case Nil
  show ?case by simp
next
  case (Cons s ss)
  show ?case
  proof (cases "list_ex (\<lambda>s'. set (assignments s') = set (assignments s)) acc")
    case True
    with Cons.IH [of acc] show ?thesis by auto
  next
    case False
    with Cons.IH [of "acc @ [s]"] show ?thesis by auto
  qed
qed

lemma dedupe_nonempty: "ss \<noteq> [] \<Longrightarrow> dedupe ss \<noteq> []"
proof (cases ss)
  case Nil
  assume "ss \<noteq> []"
  with Nil show ?thesis by simp
next
  case (Cons s rest)
  from foldl_dedupe_superset [of "[s]" rest] have "s \<in> set (dedupe ss)"
    by (simp add: dedupe_def Cons)
  then show ?thesis by auto
qed

lemma generate_Inr:
  assumes "buildModel raw = Inr m"
  shows "\<exists>schedules. generate score raw opts = Inr schedules
           \<and> (0 < maxAlternatives opts \<longrightarrow> schedules \<noteq> [])"
proof -
  let ?ranked = "sort_key (\<lambda>s. - score m (assignments s)) (dedupe (allRuns m opts))"
  have eq: "generate score raw opts = Inr (take (maxAlternatives opts) ?ranked)"
    using assms by (simp add: generate_def)
  have "take (maxAlternatives opts) ?ranked \<noteq> []" if "0 < maxAlternatives opts"
  proof -
    from that have "allRuns m opts \<noteq> []" by (simp add: allRuns_def)
    then have "dedupe (allRuns m opts) \<noteq> []" by (rule dedupe_nonempty)
    then have "length (dedupe (allRuns m opts)) \<noteq> 0" by simp
    then have "length ?ranked \<noteq> 0" by simp
    then have "?ranked \<noteq> []" by (metis list.size(3))
    with that show ?thesis by simp
  qed
  then have "0 < maxAlternatives opts \<longrightarrow> take (maxAlternatives opts) ?ranked \<noteq> []" ..
  with eq show ?thesis by (intro exI conjI)
qed

text \<open>
  Claim C4. \<open>generate\<close> fails with \<open>ModelError\<close> exactly when some subject has no qualified
  faculty member in the input, some batch is larger than every room, or some batch names
  a subject identifier that is not present. The failure is that of the model builder, so
  no search precedes it; when the model builds, every choice of options gives schedules
  and never an error, at least one schedule when at least one is asked for. A batch of 50
  with rooms of capacity 40 only is such a failure.
\<close>

theorem generate_ModelError_iff:
  "(generate score raw opts = Inl ModelError \<longleftrightarrow>
       (\<exists>s \<in> set (in_subjects raw). \<forall>f \<in> set (in_faculties raw). sub_id s \<notin> set (qualifiedSubjects f))
     \<or> (\<exists>b \<in> set (in_batches raw). \<forall>r \<in> set (in_rooms raw). capacity r < strength b)
     \<or> (\<exists>b \<in> set (in_batches raw). \<exists>sid \<in> set (batchSubjects b).
           \<forall>s \<in> set (in_subjects raw). sub_id s \<noteq> sid))
   \<and> (generate score raw opts = Inl ModelError \<longleftrightarrow> buildModel raw = Inl ModelError)
   \<and> (generate score raw opts \<noteq> Inl ModelError \<longrightarrow>
        (\<exists>schedules. generate score raw opts = Inr schedules
           \<and> (0 < maxAlternatives opts \<longrightarrow> schedules \<noteq> [])))
   \<and> ((\<exists>b \<in> set (in_batches raw). strength b = 50) \<and> (\<forall>r \<in> set (in_rooms raw). capacity r = 40)
        \<longrightarrow> generate score raw opts = Inl ModelError)"
proof -
  have build: "buildModel raw = Inl ModelError \<longleftrightarrow> modelErrors raw"
    by (simp add: buildModel_def)
  have gen: "generate score raw opts = Inl ModelError \<longleftrightarrow> buildModel raw = Inl ModelError"
    by (cases "buildModel raw") (simp_all add: generate_def)
  have ok: "\<exists>schedules. generate score raw opts = Inr schedules
           \<and> (0 < maxAlternatives opts \<longrightarrow> schedules \<noteq> [])"
    if "generate score raw opts \<noteq> Inl ModelError"
  proof -
    from that gen obtain m where "buildModel raw = Inr m"
      by (cases "buildModel raw") (auto simp: buildModel_def split: if_splits)
    then show ?thesis by (rule generate_Inr)
  qed
  have big: "modelErrors raw"
    if "(\<exists>b \<in> set (in_batches raw). strength b = 50) \<and> (\<forall>r \<in> set (in_rooms raw). capacity r = 40)"
    using that unfolding modelErrors_iff by fastforce
  from build gen ok big show ?thesis
    unfolding modelErrors_iff [symmetric] by blast
qed

theorem generate_ModelError_iff_witness:
  "generate noScore scenarioB sample_options = Inl ModelError
   \<and> map strength (in_batches scenarioB) = [50] \<and> map capacity (in_rooms scenarioB) = [40]
   \<and> generate noScore scenarioC (sample_options\<lparr>backtrackBudget := 0\<rparr>) \<noteq> Inl ModelError"
proof -
  have b: "map strength (in_batches scenarioB) = [50]" "map capacity (in_rooms scenarioB) = [40]"
    by (simp_all add: scenarioB_def scenarioA_def sample_room_def)
  have "(\<exists>b \<in> set (in_batches scenarioB). strength b = 50)
      \<and> (\<forall>r \<in> set (in_rooms scenarioB). capacity r = 40)"
    by (simp add: scenarioB_def scenarioA_def sample_room_def)
  with generate_ModelError_iff [of noScore scenarioB sample_options]
  have 1: "generate noScore scenarioB sample_options = Inl ModelError" by blast
  have "\<not> ((\<exists>s \<in> set (in_subjects scenarioC). \<forall>f \<in> set (in_faculties scenarioC). sub_id s \<notin> set (qualifiedSubjects f))
     \<or> (\<exists>b \<in> set (in_batches scenarioC). \<forall>r \<in> set (in_rooms scenarioC). capacity r < strength b)
     \<or> (\<exists>b \<in> set (in_batches scenarioC). \<exists>sid \<in> set (batchSubjects b).
           \<forall>s \<in> set (in_subjects scenarioC). sub_id s \<noteq> sid))"
    by (simp add: scenarioC_def scenarioA_def sample_room_def sample_batch_def sample_subject_def
        sample_teacher_def)
  with generate_ModelError_iff [of noScore scenarioC "sample_options\<lparr>backtrackBudget := 0\<rparr>"]
  have 2: "generate noScore scenarioC (sample_options\<lparr>backtrackBudget := 0\<rparr>) \<noteq> Inl ModelError"
    by blast
  from 1 2 b show ?thesis by simp
qed

end
